theory Spec2Isabelle
  imports Main "HOL-Library.Word" "HOL-Library.Multiset"
begin

section \<open>Data model of \<open>App.tsx\<close>\<close>

text \<open>
  A JavaScript string is a sequence of UTF-16 code units. Literals of the source are
  written with \<open>lit\<close>, which maps each (ASCII) character to its code unit.
\<close>

type_synonym jsstring = "16 word list"

definition lit :: "string \<Rightarrow> jsstring" where
  "lit s = map (\<lambda>c. of_char c) s"

text \<open>
  \<open>String.prototype.trim\<close> removes the code units of the ECMAScript productions
  WhiteSpace and LineTerminator from both ends: TAB, LF, VT, FF, CR, SP, NBSP, U+1680,
  U+2000 to U+200A, LS, PS, U+202F, U+205F, U+3000 and the BOM U+FEFF.
\<close>

definition is_ws :: "16 word \<Rightarrow> bool" where
  "is_ws c = (c = 0x0009 \<or> c = 0x000A \<or> c = 0x000B \<or> c = 0x000C \<or> c = 0x000D
            \<or> c = 0x0020 \<or> c = 0x00A0 \<or> c = 0x1680 \<or> (0x2000 \<le> c \<and> c \<le> 0x200A)
            \<or> c = 0x2028 \<or> c = 0x2029 \<or> c = 0x202F \<or> c = 0x205F \<or> c = 0x3000
            \<or> c = 0xFEFF)"

definition trim :: "jsstring \<Rightarrow> jsstring" where
  "trim s = rev (dropWhile is_ws (rev (dropWhile is_ws s)))"

text \<open>The interfaces \<open>Task\<close> and \<open>Event\<close>; a \<open>bigint\<close> is an unbounded integer.\<close>

record Task =
  id_Task :: int
  description_Task :: jsstring
  completed :: bool

datatype EventName = TaskCreated | TaskUpdated | TaskCompleted

record Event =
  type_Event :: EventName
  id_Event :: int
  description_Event :: "jsstring option"
  blockNumber_Event :: int
  transactionHash_Event :: jsstring

text \<open>
  A decoded log of \<open>client.getLogs\<close>: the event name, the decoded arguments (\<open>args.id\<close>,
  and \<open>args.description\<close> for the two events that have one), the block number and the
  transaction hash.
\<close>

record Log =
  eventName :: EventName
  args_id :: int
  args_description :: "jsstring option"
  blockNumber :: int
  transactionHash :: jsstring

section \<open>The ledger as the component sees it\<close>

text \<open>
  Every \<open>await\<close> of the component either returns a value or throws an error with a
  message: a result is \<open>Inl message\<close> or \<open>Inr value\<close>. The record \<open>ledger\<close> holds what
  the public client and the wallet client answer to each call. The prepared request that
  \<open>simulateContract\<close> returns is opaque to the component (type \<open>'r\<close>). The wait for the
  receipt throws when no receipt arrives; a receipt that arrives carries the status of
  the mined transaction, \<open>success\<close> or \<open>reverted\<close>.
\<close>

datatype receipt_status = success | reverted

datatype contract_fn =
    createTask_fn jsstring
  | updateTask_fn int jsstring
  | completeTask_fn int

record 'r ledger =
  getLogs :: "jsstring + Log list"
  readContract :: "int \<Rightarrow> jsstring + Task"
  simulateContract :: "contract_fn \<Rightarrow> jsstring \<Rightarrow> jsstring + 'r"
  writeContract :: "'r \<Rightarrow> jsstring + jsstring"
  waitForTransactionReceipt :: "jsstring \<Rightarrow> jsstring + receipt_status"

text \<open>The calls made on the two clients, in the order they are issued.\<close>

datatype 'r call =
    GetLogs
  | ReadContract int
  | SimulateContract contract_fn jsstring
  | WriteContract 'r
  | WaitForTransactionReceipt jsstring

text \<open>The \<open>useState\<close> cells of \<open>TodoDApp\<close>; \<open>walletClient\<close> is \<open>null\<close> or a client.\<close>

record app_state =
  account :: jsstring
  tasks :: "Task list"
  events :: "Event list"
  newTaskDescription :: jsstring
  editingTask :: "(int \<times> jsstring) option"
  loading :: bool
  error :: jsstring
  walletClient :: "unit option"
  balance :: jsstring

section \<open>Library functions of the language\<close>

text \<open>
  \<open>Array.prototype.sort\<close> with a comparator is a stable sort: \<open>x\<close> goes before \<open>y\<close>
  when the comparator is negative, after it when positive, and the input order is kept
  when it is zero. Both comparators of the source are \<open>Number\<close> of a \<open>bigint\<close>
  difference, whose sign is the sign of the difference, so the comparator is modelled
  by the integer difference itself.
\<close>

fun insert_by :: "('a \<Rightarrow> 'a \<Rightarrow> int) \<Rightarrow> 'a \<Rightarrow> 'a list \<Rightarrow> 'a list" where
  "insert_by cmp x [] = [x]"
| "insert_by cmp x (y # ys) =
     (if cmp x y \<le> 0 then x # y # ys else y # insert_by cmp x ys)"

definition js_sort :: "('a \<Rightarrow> 'a \<Rightarrow> int) \<Rightarrow> 'a list \<Rightarrow> 'a list" where
  "js_sort cmp xs = foldr (insert_by cmp) xs []"

text \<open>
  A \<open>Set<bigint>\<close> keeps its elements in insertion order; \<open>add\<close> of a present element
  changes nothing, and \<open>Array.from\<close> lists the elements in that order.
\<close>

definition set_add :: "int list \<Rightarrow> int \<Rightarrow> int list" where
  "set_add s x = (if x \<in> set s then s else s @ [x])"

section \<open>The read path: \<open>loadTasksAndEvents\<close>\<close>

definition processLog :: "Log \<Rightarrow> Event" where
  "processLog log =
     \<lparr> type_Event = eventName log,
       id_Event = args_id log,
       description_Event = None,
       blockNumber_Event = blockNumber log,
       transactionHash_Event = transactionHash log \<rparr>"

definition sortEvents :: "Event list \<Rightarrow> Event list" where
  "sortEvents es = js_sort (\<lambda>a b. blockNumber_Event b - blockNumber_Event a) es"

definition collectTaskIds :: "Log list \<Rightarrow> int list" where
  "collectTaskIds logs =
     foldl (\<lambda>taskIds log.
              if eventName log = TaskCreated then set_add taskIds (args_id log)
              else taskIds) [] logs"

text \<open>One point-read: the \<open>catch\<close> turns every failure into \<open>null\<close>.\<close>

definition fetchTask :: "'r ledger \<Rightarrow> int \<Rightarrow> Task option" where
  "fetchTask L i = (case readContract L i of Inl _ \<Rightarrow> None | Inr task \<Rightarrow> Some task)"

definition validTasks :: "Task option list \<Rightarrow> Task list" where
  "validTasks taskResults = map the (filter (\<lambda>task. task \<noteq> None) taskResults)"

definition sortTasks :: "Task list \<Rightarrow> Task list" where
  "sortTasks ts = js_sort (\<lambda>a b. id_Task a - id_Task b) ts"

definition loadTasksAndEvents ::
  "'r ledger \<Rightarrow> app_state \<Rightarrow> app_state \<times> 'r call list" where
  "loadTasksAndEvents L s =
     (let s1 = s\<lparr>loading := True\<rparr> in
      case getLogs L of
        Inl message \<Rightarrow>
          (s1\<lparr>error := lit ''Failed to load tasks: '' @ message, loading := False\<rparr>,
           [GetLogs])
      | Inr logs \<Rightarrow>
          (let processedEvents = map processLog logs;
               s2 = s1\<lparr>events := sortEvents processedEvents\<rparr>;
               taskIds = collectTaskIds logs;
               taskResults = map (fetchTask L) taskIds;
               s3 = s2\<lparr>tasks := sortTasks (validTasks taskResults)\<rparr>
           in (s3\<lparr>loading := False\<rparr>, GetLogs # map ReadContract taskIds)))"

section \<open>The write path: \<open>createTask\<close>, \<open>updateTask\<close>, \<open>completeTask\<close>\<close>

text \<open>
  Each handler returns the state it leaves behind and the calls it made. The early
  \<open>return\<close> of the guard touches nothing. A \<open>throw\<close> of any awaited call lands in the
  \<open>catch\<close>, which records the message, and \<open>finally\<close> clears the busy flag. The
  receipt that the wait returns is dropped without a look at its status.
  \<open>loadTasksAndEvents\<close> catches its own errors, so awaiting it never throws.
\<close>

definition createTask :: "'r ledger \<Rightarrow> app_state \<Rightarrow> app_state \<times> 'r call list" where
  "createTask L s =
     (if trim (newTaskDescription s) = [] \<or> walletClient s = None then (s, [])
      else
        let s1 = s\<lparr>loading := True, error := []\<rparr>;
            fn = createTask_fn (trim (newTaskDescription s));
            simulate = SimulateContract fn (account s)
        in case simulateContract L fn (account s) of
             Inl message \<Rightarrow>
               (s1\<lparr>error := lit ''Failed to create task: '' @ message, loading := False\<rparr>,
                [simulate])
           | Inr request \<Rightarrow>
               (case writeContract L request of
                  Inl message \<Rightarrow>
                    (s1\<lparr>error := lit ''Failed to create task: '' @ message, loading := False\<rparr>,
                     [simulate, WriteContract request])
                | Inr hash \<Rightarrow>
                    (case waitForTransactionReceipt L hash of
                       Inl message \<Rightarrow>
                         (s1\<lparr>error := lit ''Failed to create task: '' @ message,
                             loading := False\<rparr>,
                          [simulate, WriteContract request, WaitForTransactionReceipt hash])
                     | Inr _ \<Rightarrow>
                         (let s2 = s1\<lparr>newTaskDescription := []\<rparr>;
                              (s3, calls) = loadTasksAndEvents L s2
                          in (s3\<lparr>loading := False\<rparr>,
                              [simulate, WriteContract request, WaitForTransactionReceipt hash]
                                @ calls)))))"

definition updateTask :: "'r ledger \<Rightarrow> app_state \<Rightarrow> app_state \<times> 'r call list" where
  "updateTask L s =
     (case editingTask s of
        None \<Rightarrow> (s, [])
      | Some (editing_id, editing_description) \<Rightarrow>
          (if trim editing_description = [] \<or> walletClient s = None then (s, [])
          else
            let s1 = s\<lparr>loading := True, error := []\<rparr>;
                fn = updateTask_fn editing_id (trim editing_description);
                simulate = SimulateContract fn (account s)
            in case simulateContract L fn (account s) of
                 Inl message \<Rightarrow>
                   (s1\<lparr>error := lit ''Failed to update task: '' @ message, loading := False\<rparr>,
                    [simulate])
               | Inr request \<Rightarrow>
                   (case writeContract L request of
                      Inl message \<Rightarrow>
                        (s1\<lparr>error := lit ''Failed to update task: '' @ message,
                            loading := False\<rparr>,
                         [simulate, WriteContract request])
                    | Inr hash \<Rightarrow>
                        (case waitForTransactionReceipt L hash of
                           Inl message \<Rightarrow>
                             (s1\<lparr>error := lit ''Failed to update task: '' @ message,
                                 loading := False\<rparr>,
                              [simulate, WriteContract request, WaitForTransactionReceipt hash])
                         | Inr _ \<Rightarrow>
                             (let s2 = s1\<lparr>editingTask := None\<rparr>;
                                  (s3, calls) = loadTasksAndEvents L s2
                              in (s3\<lparr>loading := False\<rparr>,
                                  [simulate, WriteContract request,
                                   WaitForTransactionReceipt hash] @ calls))))))"

definition completeTask :: "'r ledger \<Rightarrow> app_state \<Rightarrow> int \<Rightarrow> app_state \<times> 'r call list" where
  "completeTask L s i =
     (if walletClient s = None then (s, [])
      else
        let s1 = s\<lparr>loading := True, error := []\<rparr>;
            fn = completeTask_fn i;
            simulate = SimulateContract fn (account s)
        in case simulateContract L fn (account s) of
             Inl message \<Rightarrow>
               (s1\<lparr>error := lit ''Failed to complete task: '' @ message, loading := False\<rparr>,
                [simulate])
           | Inr request \<Rightarrow>
               (case writeContract L request of
                  Inl message \<Rightarrow>
                    (s1\<lparr>error := lit ''Failed to complete task: '' @ message,
                        loading := False\<rparr>,
                     [simulate, WriteContract request])
                | Inr hash \<Rightarrow>
                    (case waitForTransactionReceipt L hash of
                       Inl message \<Rightarrow>
                         (s1\<lparr>error := lit ''Failed to complete task: '' @ message,
                             loading := False\<rparr>,
                          [simulate, WriteContract request, WaitForTransactionReceipt hash])
                     | Inr _ \<Rightarrow>
                         (let (s3, calls) = loadTasksAndEvents L s1
                          in (s3\<lparr>loading := False\<rparr>,
                              [simulate, WriteContract request, WaitForTransactionReceipt hash]
                                @ calls)))))"

section \<open>The events panel\<close>

text \<open>
  The panel shows a placeholder for an empty feed, and otherwise one row for each
  element of \<open>events.slice(0, 20)\<close>, keyed by the transaction hash and the index.
\<close>

datatype events_panel = NoEventsYet | EventRows "((jsstring \<times> nat) \<times> Event) list"

definition eventsPanel :: "Event list \<Rightarrow> events_panel" where
  "eventsPanel evs =
     (if length evs = 0 then NoEventsYet
      else EventRows (map (\<lambda>(index, event). ((transactionHash_Event event, index), event))
                          (enumerate 0 (take 20 evs))))"

fun renderedEvents :: "events_panel \<Rightarrow> Event list" where
  "renderedEvents NoEventsYet = []"
| "renderedEvents (EventRows rows) = map snd rows"

section \<open>A concrete ledger\<close>

text \<open>
  Task 1 was created at block 10 and updated at block 12; task 2 was created at block 10
  and completed at block 12. Completing task 2 again is reverted by the simulation. The
  state is the one of a session that loaded the ledger when only task 1 existed. The
  other ledgers differ from the first in one answer: a point-read that fails, a
  point-read that answers with another id, a simulation that reverts, a wallet that
  rejects, a receipt that never comes, a receipt of a reverted transaction.
\<close>

definition example_logs :: "Log list" where
  "example_logs =
     [\<lparr> eventName = TaskCreated, args_id = 1, args_description = Some (lit ''a''),
        blockNumber = 10, transactionHash = lit ''0xa1'' \<rparr>,
      \<lparr> eventName = TaskCreated, args_id = 2, args_description = Some (lit ''c''),
        blockNumber = 10, transactionHash = lit ''0xa2'' \<rparr>,
      \<lparr> eventName = TaskUpdated, args_id = 1, args_description = Some (lit ''b''),
        blockNumber = 12, transactionHash = lit ''0xa3'' \<rparr>,
      \<lparr> eventName = TaskCompleted, args_id = 2, args_description = None,
        blockNumber = 12, transactionHash = lit ''0xa4'' \<rparr>]"

definition example_ledger :: "nat ledger" where
  "example_ledger =
     \<lparr> getLogs = Inr example_logs,
       readContract = (\<lambda>i.
         if i = 1 then Inr \<lparr> id_Task = 1, description_Task = lit ''b'', completed = False \<rparr>
         else if i = 2 then Inr \<lparr> id_Task = 2, description_Task = lit ''c'', completed = True \<rparr>
         else Inl (lit ''TaskNotFound'')),
       simulateContract = (\<lambda>fn caller.
         if fn = completeTask_fn 2 then Inl (lit ''already completed'') else Inr 7),
       writeContract = (\<lambda>request. Inr (lit ''0xabc'')),
       waitForTransactionReceipt = (\<lambda>hash. Inr success) \<rparr>"

definition example_state :: app_state where
  "example_state =
     \<lparr> account = lit ''0xf00'',
       tasks = [\<lparr> id_Task = 1, description_Task = lit ''a'', completed = False \<rparr>],
       events = [\<lparr> type_Event = TaskCreated, id_Event = 1, description_Event = None,
                  blockNumber_Event = 10, transactionHash_Event = lit ''0xa1'' \<rparr>],
       newTaskDescription = lit '' buy milk '', editingTask = Some (1, lit ''b2 ''),
       loading = False, error = [], walletClient = Some (), balance = lit ''0'' \<rparr>"


definition example_ledger_reverting :: "nat ledger" where
  "example_ledger_reverting =
     example_ledger\<lparr> simulateContract := (\<lambda>fn caller. Inl (lit ''not owner'')) \<rparr>"

definition example_ledger_rejecting :: "nat ledger" where
  "example_ledger_rejecting =
     example_ledger\<lparr> writeContract := (\<lambda>request. Inl (lit ''User rejected'')) \<rparr>"

definition example_ledger_timeout :: "nat ledger" where
  "example_ledger_timeout =
     example_ledger\<lparr> waitForTransactionReceipt := (\<lambda>hash. Inl (lit ''Timed out'')) \<rparr>"

definition example_ledger_other_id :: "nat ledger" where
  "example_ledger_other_id =
     example_ledger\<lparr> readContract := (\<lambda>i.
       Inr \<lparr> id_Task = 7, description_Task = lit ''x'', completed = False \<rparr>) \<rparr>"

definition example_ledger_mined_reverted :: "nat ledger" where
  "example_ledger_mined_reverted =
     example_ledger\<lparr> waitForTransactionReceipt := (\<lambda>hash. Inr reverted) \<rparr>"

section \<open>Vocabulary of the properties\<close>

text \<open>
  A write throws a message when its simulation throws it, or the simulation succeeds
  and the submission throws it, or both succeed and the wait for the receipt throws
  it. A receipt with status \<open>reverted\<close> is not a throw.
\<close>

abbreviation throws_with :: "'r ledger \<Rightarrow> contract_fn \<Rightarrow> jsstring \<Rightarrow> jsstring \<Rightarrow> bool" where
  "throws_with L fn caller message \<equiv>
     simulateContract L fn caller = Inl message
     \<or> (\<exists>request. simulateContract L fn caller = Inr request
           \<and> (writeContract L request = Inl message
               \<or> (\<exists>hash. writeContract L request = Inr hash
                     \<and> waitForTransactionReceipt L hash = Inl message)))"

text \<open>The ids that appear in a \<open>TaskCreated\<close> log.\<close>

abbreviation created_ids :: "Log list \<Rightarrow> int set" where
  "created_ids logs \<equiv> args_id ` {l \<in> set logs. eventName l = TaskCreated}"

section \<open>Facts about the library functions\<close>

lemma insert_by_insort_key: "insert_by (\<lambda>a b. k a - k b) x ys = insort_key k x ys"
  by (induction ys) auto

lemma js_sort_sort_key: "js_sort (\<lambda>a b. k a - k b) xs = sort_key k xs"
  unfolding js_sort_def sort_key_def
  by (induction xs) (simp_all add: insert_by_insort_key)

lemma sortTasks_sort_key: "sortTasks ts = sort_key id_Task ts"
  unfolding sortTasks_def by (rule js_sort_sort_key)

lemma sortEvents_sort_key: "sortEvents es = sort_key (\<lambda>e. - blockNumber_Event e) es"
proof -
  have "(\<lambda>a b. blockNumber_Event b - blockNumber_Event a)
        = (\<lambda>a b. (- blockNumber_Event a) - (- blockNumber_Event b))"
    by (simp add: fun_eq_iff)
  then show ?thesis
    unfolding sortEvents_def using js_sort_sort_key [of "\<lambda>e. - blockNumber_Event e" es] by simp
qed

lemma all_dropWhile: "(\<forall>x \<in> set (dropWhile P d). P x) \<longleftrightarrow> (\<forall>x \<in> set d. P x)"
  by (induction d) auto

lemma trim_empty_iff: "trim d = [] \<longleftrightarrow> (\<forall>c \<in> set d. is_ws c)"
  by (simp add: trim_def all_dropWhile)

lemma trim_ends:
  assumes ne: "trim d \<noteq> []"
  shows "\<not> is_ws (hd (trim d)) \<and> \<not> is_ws (last (trim d))"
proof -
  define v where "v = dropWhile is_ws d"
  define u where "u = dropWhile is_ws (rev v)"
  have t: "trim d = rev u" by (simp add: trim_def u_def v_def)
  with ne have une: "u \<noteq> []" by simp
  then have hu: "\<not> is_ws (hd u)" unfolding u_def by (rule hd_dropWhile)
  have vne: "v \<noteq> []"
  proof
    assume "v = []"
    then have "u = []" unfolding u_def by simp
    with une show False by simp
  qed
  then have hv: "\<not> is_ws (hd v)" unfolding v_def by (rule hd_dropWhile)
  have "rev v = takeWhile is_ws (rev v) @ u"
    unfolding u_def by simp
  then have "last (rev v) = last u"
    using une by (metis last_appendR)
  then have "last u = hd v"
    using vne by (simp add: last_rev)
  then have "\<not> is_ws (last u)" using hv by simp
  then show ?thesis using hu une unfolding t by (simp add: hd_rev last_rev)
qed

lemma lit_append: "lit a @ lit b = lit (a @ b)"
  by (simp add: lit_def)

lemma lit_Nil_iff: "lit a = [] \<longleftrightarrow> a = []"
  by (simp add: lit_def)

section \<open>Facts about the read path\<close>

lemma foldl_collect_set:
  "set (foldl (\<lambda>taskIds log. if eventName log = TaskCreated then set_add taskIds (args_id log)
              else taskIds) acc logs)
   = set acc \<union> args_id ` {l \<in> set logs. eventName l = TaskCreated}"
  by (induction logs arbitrary: acc) (auto simp: set_add_def)

lemma foldl_collect_distinct:
  "distinct acc \<Longrightarrow> distinct (foldl (\<lambda>taskIds log. if eventName log = TaskCreated then set_add taskIds (args_id log)
              else taskIds) acc logs)"
  by (induction logs arbitrary: acc) (auto simp: set_add_def)

lemma set_collectTaskIds:
  "set (collectTaskIds logs) = args_id ` {l \<in> set logs. eventName l = TaskCreated}"
  unfolding collectTaskIds_def by (simp add: foldl_collect_set)

lemma distinct_collectTaskIds: "distinct (collectTaskIds logs)"
  unfolding collectTaskIds_def by (simp add: foldl_collect_distinct)

lemma foldl_collect_filter:
  "foldl (\<lambda>taskIds log. if eventName log = TaskCreated then set_add taskIds (args_id log)
              else taskIds) acc (filter (\<lambda>l. eventName l = TaskCreated) logs)
   = foldl (\<lambda>taskIds log. if eventName log = TaskCreated then set_add taskIds (args_id log)
              else taskIds) acc logs"
  by (induction logs arbitrary: acc) auto

lemma collectTaskIds_filter:
  "collectTaskIds (filter (\<lambda>l. eventName l = TaskCreated) logs) = collectTaskIds logs"
  unfolding collectTaskIds_def by (rule foldl_collect_filter)

lemma collectTaskIds_cong:
  assumes "filter (\<lambda>l. eventName l = TaskCreated) logs' = filter (\<lambda>l. eventName l = TaskCreated) logs"
  shows "collectTaskIds logs' = collectTaskIds logs"
  using assms collectTaskIds_filter by metis

lemma validTasks_all_ok:
  "\<forall>i \<in> set ids. \<exists>t. readContract L i = Inr t \<Longrightarrow>
   validTasks (map (fetchTask L) ids) = map (\<lambda>i. projr (readContract L i)) ids"
  by (induction ids) (auto simp: validTasks_def fetchTask_def)



lemma load_ok:
  "getLogs L = Inr logs \<Longrightarrow>
   loadTasksAndEvents L s =
     (s\<lparr>events := sortEvents (map processLog logs),
        tasks := sortTasks (validTasks (map (fetchTask L) (collectTaskIds logs))),
        loading := False\<rparr>,
      GetLogs # map ReadContract (collectTaskIds logs))"
  by (simp add: loadTasksAndEvents_def Let_def)

lemma load_failed:
  "getLogs L = Inl message \<Longrightarrow>
   loadTasksAndEvents L s =
     (s\<lparr>error := lit ''Failed to load tasks: '' @ message, loading := False\<rparr>, [GetLogs])"
  by (simp add: loadTasksAndEvents_def Let_def)

lemma load_no_simulate: "SimulateContract fn caller \<notin> set (snd (loadTasksAndEvents L s))"
  by (cases "getLogs L") (auto simp: load_ok load_failed)

lemma load_no_write: "WriteContract r \<notin> set (snd (loadTasksAndEvents L s))"
  by (cases "getLogs L") (auto simp: load_ok load_failed)

lemma map_snd_rows:
  "map snd (map (\<lambda>(index, event). ((transactionHash_Event event, index), event)) xs) = map snd xs"
  by (induction xs) auto

lemma renderedEvents_panel: "renderedEvents (eventsPanel evs) = take 20 evs"
  unfolding eventsPanel_def by (simp add: map_snd_rows del: map_map)

section \<open>Facts about the write path\<close>

lemma createTask_simulate_arg:
  "SimulateContract fn caller \<in> set (snd (createTask L s)) \<Longrightarrow>
   fn = createTask_fn (trim (newTaskDescription s)) \<and> trim (newTaskDescription s) \<noteq> []"
  by (auto simp: createTask_def Let_def load_no_simulate case_prod_unfold
           split: sum.splits if_splits)

lemma createTask_write_arg:
  "WriteContract request \<in> set (snd (createTask L s)) \<Longrightarrow>
   simulateContract L (createTask_fn (trim (newTaskDescription s))) (account s) = Inr request"
  by (auto simp: createTask_def Let_def load_no_write case_prod_unfold
           split: sum.splits if_splits)

lemma createTask_first_call:
  "trim (newTaskDescription s) \<noteq> [] \<Longrightarrow> walletClient s \<noteq> None \<Longrightarrow>
   \<exists>rest. snd (createTask L s)
     = SimulateContract (createTask_fn (trim (newTaskDescription s))) (account s) # rest"
  by (auto simp: createTask_def Let_def case_prod_unfold split: sum.splits)

lemma updateTask_simulate_arg:
  "editingTask s = Some (i, d) \<Longrightarrow> SimulateContract fn caller \<in> set (snd (updateTask L s)) \<Longrightarrow>
   fn = updateTask_fn i (trim d) \<and> trim d \<noteq> []"
  by (auto simp: updateTask_def Let_def load_no_simulate case_prod_unfold
           split: sum.splits if_splits)

lemma updateTask_write_arg:
  "editingTask s = Some (i, d) \<Longrightarrow> WriteContract request \<in> set (snd (updateTask L s)) \<Longrightarrow>
   simulateContract L (updateTask_fn i (trim d)) (account s) = Inr request"
  by (auto simp: updateTask_def Let_def load_no_write case_prod_unfold
           split: sum.splits if_splits)

lemma updateTask_first_call:
  "editingTask s = Some (i, d) \<Longrightarrow> trim d \<noteq> [] \<Longrightarrow> walletClient s \<noteq> None \<Longrightarrow>
   \<exists>rest. snd (updateTask L s) = SimulateContract (updateTask_fn i (trim d)) (account s) # rest"
  by (auto simp: updateTask_def Let_def case_prod_unfold split: sum.splits)

section \<open>The concrete ledger evaluated\<close>

lemma example_created: "created_ids example_logs = {1, 2}"
  unfolding set_collectTaskIds [symmetric]
  by (simp add: collectTaskIds_def set_add_def example_logs_def)

lemma example_state_fields:
  "newTaskDescription example_state = lit '' buy milk ''"
  "editingTask example_state = Some (1, lit ''b2 '')"
  "walletClient example_state = Some ()"
  "account example_state = lit ''0xf00''"
  "loading example_state = False"
  "error example_state = []"
  by (simp_all add: example_state_def)

lemma example_ends:
  "\<not> is_ws (hd (lit ''buy milk''))" "\<not> is_ws (last (lit ''buy milk''))"
  "\<not> is_ws (hd (lit ''b2''))" "\<not> is_ws (last (lit ''b2''))"
  by (simp_all add: lit_def is_ws_def)

lemma trim_buy_milk: "trim (lit '' buy milk '') = lit ''buy milk''"
  by (simp add: trim_def lit_def is_ws_def)

lemma trim_b2: "trim (lit ''b2 '') = lit ''b2''"
  by (simp add: trim_def lit_def is_ws_def)

section \<open>The claims\<close>

text \<open>
  Claim C1, as amended. Whatever Created, Updated and Completed logs the log fetch
  returns, when the point-read of every created id succeeds and returns a task whose id
  is the id that was read, the ids of the reconstructed tasks are exactly the ids of the
  \<open>TaskCreated\<close> logs, no more and no fewer, each once (and ascending), and there are as
  many tasks as distinct created ids. The Updated and Completed logs play no part: any
  other log sequence with the same Created logs in the same order gives the same tasks.
  The claim as stated, with point-reads that merely succeed, fails: the read path copies
  the id that the ledger answers, and a ledger that answers every read with a task of
  id 7 gives the ids 7, 7 for the created ids 1 and 2.
\<close>

theorem reconstructed_ids_exactly_created:
  assumes "getLogs L = Inr logs"
    and "\<forall>i \<in> created_ids logs. \<exists>t. readContract L i = Inr t \<and> id_Task t = i"
  shows "set (map id_Task (tasks (fst (loadTasksAndEvents L s)))) = created_ids logs
       \<and> distinct (map id_Task (tasks (fst (loadTasksAndEvents L s))))
       \<and> sorted (map id_Task (tasks (fst (loadTasksAndEvents L s))))
       \<and> length (tasks (fst (loadTasksAndEvents L s))) = card (created_ids logs)
       \<and> (\<forall>logs'. filter (\<lambda>l. eventName l = TaskCreated) logs'
                    = filter (\<lambda>l. eventName l = TaskCreated) logs \<longrightarrow>
            tasks (fst (loadTasksAndEvents (L\<lparr>getLogs := Inr logs'\<rparr>) s))
              = tasks (fst (loadTasksAndEvents L s)))"
proof -
  define ids where "ids = collectTaskIds logs"
  define got where "got = map (\<lambda>i. projr (readContract L i)) ids"
  have si: "set ids = created_ids logs" and d: "distinct ids"
    unfolding ids_def by (rule set_collectTaskIds, rule distinct_collectTaskIds)
  have ok: "\<forall>i \<in> set ids. \<exists>t. readContract L i = Inr t"
    using assms(2) unfolding si by blast
  have t: "tasks (fst (loadTasksAndEvents L s)) = sort_key id_Task got"
    using assms(1) validTasks_all_ok [OF ok]
    by (simp add: load_ok sortTasks_sort_key ids_def got_def)
  have len: "length (sort_key id_Task got) = card (created_ids logs)"
    using d unfolding si [symmetric] got_def by (simp add: distinct_card)
  have "id_Task (projr (readContract L i)) = i" if "i \<in> set ids" for i
  proof -
    from that assms(2) obtain u where "readContract L i = Inr u" and "id_Task u = i"
      unfolding si by blast
    then show ?thesis by simp
  qed
  then have same: "map id_Task got = ids"
    unfolding got_def by (simp add: map_idI)
  have "distinct (map id_Task (sort_key id_Task got)) = distinct (map id_Task got)"
    by (simp only: distinct_map distinct_sort set_sort)
  moreover have "set (map id_Task (sort_key id_Task got)) = set (map id_Task got)"
    by simp
  ultimately have faithful: "set (map id_Task (sort_key id_Task got)) = created_ids logs
      \<and> distinct (map id_Task (sort_key id_Task got))
      \<and> sorted (map id_Task (sort_key id_Task got))"
    unfolding same using d si by (simp add: sorted_sort_key)
  have indep: "tasks (fst (loadTasksAndEvents (L\<lparr>getLogs := Inr logs'\<rparr>) s))
              = tasks (fst (loadTasksAndEvents L s))"
    if "filter (\<lambda>l. eventName l = TaskCreated) logs'
                    = filter (\<lambda>l. eventName l = TaskCreated) logs" for logs'
  proof -
    have "collectTaskIds logs' = collectTaskIds logs"
      using that by (rule collectTaskIds_cong)
    moreover have "fetchTask (L\<lparr>getLogs := Inr logs'\<rparr>) = fetchTask L"
      by (simp add: fetchTask_def fun_eq_iff)
    ultimately show ?thesis
      using assms(1) by (simp add: load_ok)
  qed
  show ?thesis
    unfolding t using len faithful indep unfolding t by blast
qed

theorem reconstructed_ids_exactly_created_witness:
  "getLogs example_ledger = Inr example_logs
   \<and> created_ids example_logs = {1, 2}
   \<and> readContract example_ledger 1
       = Inr \<lparr> id_Task = 1, description_Task = lit ''b'', completed = False \<rparr>
   \<and> readContract example_ledger 2
       = Inr \<lparr> id_Task = 2, description_Task = lit ''c'', completed = True \<rparr>
   \<and> length (tasks (fst (loadTasksAndEvents example_ledger example_state))) = 2
   \<and> set (map id_Task (tasks (fst (loadTasksAndEvents example_ledger example_state)))) = {1, 2}
   \<and> distinct (map id_Task (tasks (fst (loadTasksAndEvents example_ledger example_state))))
   \<and> tasks (fst (loadTasksAndEvents
                   (example_ledger\<lparr>getLogs := Inr (take 2 example_logs)\<rparr>) example_state))
       = tasks (fst (loadTasksAndEvents example_ledger example_state))"
proof -
  have h1: "getLogs example_ledger = Inr example_logs"
    by (simp add: example_ledger_def)
  have h2: "\<forall>i \<in> created_ids example_logs.
              \<exists>t. readContract example_ledger i = Inr t \<and> id_Task t = i"
    unfolding example_created by (simp add: example_ledger_def)
  have h4: "filter (\<lambda>l. eventName l = TaskCreated) (take 2 example_logs)
              = filter (\<lambda>l. eventName l = TaskCreated) example_logs"
    by (simp add: example_logs_def)
  have r: "readContract example_ledger 1
             = Inr \<lparr> id_Task = 1, description_Task = lit ''b'', completed = False \<rparr>"
    "readContract example_ledger 2
             = Inr \<lparr> id_Task = 2, description_Task = lit ''c'', completed = True \<rparr>"
    by (simp_all add: example_ledger_def)
  from reconstructed_ids_exactly_created [OF h1 h2, of example_state] h4
  have "length (tasks (fst (loadTasksAndEvents example_ledger example_state)))
          = card (created_ids example_logs)
      \<and> set (map id_Task (tasks (fst (loadTasksAndEvents example_ledger example_state))))
          = created_ids example_logs
      \<and> distinct (map id_Task (tasks (fst (loadTasksAndEvents example_ledger example_state))))
      \<and> tasks (fst (loadTasksAndEvents
                      (example_ledger\<lparr>getLogs := Inr (take 2 example_logs)\<rparr>) example_state))
          = tasks (fst (loadTasksAndEvents example_ledger example_state))"
    by blast
  then show ?thesis
    using h1 r unfolding example_created by simp
qed

theorem succeeding_reads_with_other_id:
  "getLogs example_ledger_other_id = Inr example_logs
   \<and> created_ids example_logs = {1, 2}
   \<and> readContract example_ledger_other_id 1
       = Inr \<lparr> id_Task = 7, description_Task = lit ''x'', completed = False \<rparr>
   \<and> readContract example_ledger_other_id 2
       = Inr \<lparr> id_Task = 7, description_Task = lit ''x'', completed = False \<rparr>
   \<and> map id_Task (tasks (fst (loadTasksAndEvents example_ledger_other_id example_state)))
       = [7, 7]
   \<and> set (map id_Task (tasks (fst (loadTasksAndEvents example_ledger_other_id example_state))))
       \<noteq> created_ids example_logs
   \<and> \<not> distinct
         (map id_Task (tasks (fst (loadTasksAndEvents example_ledger_other_id example_state))))"
proof -
  have h1: "getLogs example_ledger_other_id = Inr example_logs"
    by (simp add: example_ledger_other_id_def example_ledger_def)
  have r: "readContract example_ledger_other_id i
             = Inr \<lparr> id_Task = 7, description_Task = lit ''x'', completed = False \<rparr>" for i
    by (simp add: example_ledger_other_id_def)
  have ids: "collectTaskIds example_logs = [1, 2]"
    by (simp add: collectTaskIds_def set_add_def example_logs_def)
  have m: "map id_Task (tasks (fst (loadTasksAndEvents example_ledger_other_id example_state)))
             = [7, 7]"
    by (simp add: load_ok [OF h1] ids fetchTask_def validTasks_def sortTasks_def js_sort_def r)
  show ?thesis
    unfolding m example_created using h1 r by simp
qed



text \<open>
  Claim C3. Whatever logs the log fetch returns, the event feed that the read path
  stores is non-increasing in block number over its whole length, it is a rearrangement
  of the processed logs, and the events of any one block number keep the order they had
  in the input.
\<close>

theorem event_feed_descending_stable:
  assumes "getLogs L = Inr logs"
  shows "sorted_wrt (\<lambda>a b. blockNumber_Event a \<ge> blockNumber_Event b)
           (events (fst (loadTasksAndEvents L s)))
       \<and> (\<forall>h. filter (\<lambda>e. blockNumber_Event e = h) (events (fst (loadTasksAndEvents L s)))
              = filter (\<lambda>e. blockNumber_Event e = h) (map processLog logs))
       \<and> mset (events (fst (loadTasksAndEvents L s))) = mset (map processLog logs)"
proof -
  define es where "es = map processLog logs"
  have ev: "events (fst (loadTasksAndEvents L s)) = sort_key (\<lambda>e. - blockNumber_Event e) es"
    using assms by (simp add: load_ok sortEvents_sort_key es_def)
  have "sorted (map (\<lambda>e. - blockNumber_Event e) (sort_key (\<lambda>e. - blockNumber_Event e) es))"
    by (rule sorted_sort_key)
  then have a: "sorted_wrt (\<lambda>a b. blockNumber_Event a \<ge> blockNumber_Event b)
                  (sort_key (\<lambda>e. - blockNumber_Event e) es)"
    by (simp add: sorted_map sorted_wrt_iff_nth_less)
  have b: "filter (\<lambda>e. blockNumber_Event e = h) (sort_key (\<lambda>e. - blockNumber_Event e) es)
         = filter (\<lambda>e. blockNumber_Event e = h) es" for h
    using sort_key_stable [of "\<lambda>e. - blockNumber_Event e" "- h" es] by simp
  show ?thesis
    unfolding ev using a b by (simp add: es_def)
qed

theorem event_feed_descending_stable_witness:
  "getLogs example_ledger = Inr example_logs
   \<and> sorted_wrt (\<lambda>a b. blockNumber_Event a \<ge> blockNumber_Event b)
        (events (fst (loadTasksAndEvents example_ledger example_state)))
   \<and> map blockNumber_Event (events (fst (loadTasksAndEvents example_ledger example_state)))
       = [12, 12, 10, 10]
   \<and> map id_Event (events (fst (loadTasksAndEvents example_ledger example_state)))
       = [1, 2, 1, 2]"
proof -
  have h1: "getLogs example_ledger = Inr example_logs"
    by (simp add: example_ledger_def)
  have ev: "events (fst (loadTasksAndEvents example_ledger example_state))
          = sortEvents (map processLog example_logs)"
    by (simp add: load_ok [OF h1])
  have v: "map (\<lambda>e. (blockNumber_Event e, id_Event e)) (sortEvents (map processLog example_logs))
         = [(12, 1), (12, 2), (10, 1), (10, 2)]"
    by (simp add: sortEvents_def js_sort_def processLog_def example_logs_def)
  have "map blockNumber_Event (sortEvents (map processLog example_logs)) = [12, 12, 10, 10]"
    and "map id_Event (sortEvents (map processLog example_logs)) = [1, 2, 1, 2]"
    using arg_cong [OF v, of "map fst"] arg_cong [OF v, of "map snd"]
    by (simp_all add: comp_def)
  with event_feed_descending_stable [OF h1, of example_state] h1 show ?thesis
    unfolding ev by simp
qed

text \<open>
  Claim C4, as amended. The event produced for a raw log carries the event name, the
  task id, the block number and the transaction hash of the log unchanged, and it has
  no description, for every kind of log: the line of the source that would copy
  \<open>args.description\<close> is commented out. The claim as stated, that the event of a
  Created or Updated log carries the description of the raw record, fails on a Created
  log with description \<open>a\<close>.
\<close>

theorem processLog_carries_fields_not_description:
  "type_Event (processLog log) = eventName log
   \<and> id_Event (processLog log) = args_id log
   \<and> blockNumber_Event (processLog log) = blockNumber log
   \<and> transactionHash_Event (processLog log) = transactionHash log
   \<and> description_Event (processLog log) = None"
  by (simp add: processLog_def)

theorem processLog_drops_description:
  "description_Event (processLog \<lparr> eventName = TaskCreated, args_id = 1,
      args_description = Some (lit ''a''), blockNumber = 10, transactionHash = lit ''0xa1'' \<rparr>)
   \<noteq> args_description \<lparr> eventName = TaskCreated, args_id = 1,
      args_description = Some (lit ''a''), blockNumber = 10, transactionHash = lit ''0xa1'' \<rparr>"
  by (simp add: processLog_def)

text \<open>
  Claim C5. For each of the three write intents that got past the entry guard, when the
  simulation throws, the only call made is that simulation: no \<open>writeContract\<close> is ever
  issued. The handler ends with the busy flag cleared and the error cell holding the
  failure message of the intent followed by the revert reason.
\<close>

theorem simulate_failure_never_submits:
  "(trim (newTaskDescription s) \<noteq> [] \<and> walletClient s \<noteq> None
      \<and> simulateContract L (createTask_fn (trim (newTaskDescription s))) (account s) = Inl reason
    \<longrightarrow> createTask L s =
          (s\<lparr>loading := False, error := lit ''Failed to create task: '' @ reason\<rparr>,
           [SimulateContract (createTask_fn (trim (newTaskDescription s))) (account s)])
        \<and> (\<forall>r. WriteContract r \<notin> set (snd (createTask L s))))
 \<and> (editingTask s = Some (i, d) \<and> trim d \<noteq> [] \<and> walletClient s \<noteq> None
      \<and> simulateContract L (updateTask_fn i (trim d)) (account s) = Inl reason
    \<longrightarrow> updateTask L s =
          (s\<lparr>loading := False, error := lit ''Failed to update task: '' @ reason\<rparr>,
           [SimulateContract (updateTask_fn i (trim d)) (account s)])
        \<and> (\<forall>r. WriteContract r \<notin> set (snd (updateTask L s))))
 \<and> (walletClient s \<noteq> None
      \<and> simulateContract L (completeTask_fn j) (account s) = Inl reason
    \<longrightarrow> completeTask L s j =
          (s\<lparr>loading := False, error := lit ''Failed to complete task: '' @ reason\<rparr>,
           [SimulateContract (completeTask_fn j) (account s)])
        \<and> (\<forall>r. WriteContract r \<notin> set (snd (completeTask L s j))))"
  by (simp add: createTask_def updateTask_def completeTask_def Let_def)

theorem simulate_failure_never_submits_witness:
  "createTask example_ledger_reverting example_state =
     (example_state\<lparr>error := lit ''Failed to create task: not owner''\<rparr>,
      [SimulateContract (createTask_fn (lit ''buy milk'')) (lit ''0xf00'')])
   \<and> updateTask example_ledger_reverting example_state =
     (example_state\<lparr>error := lit ''Failed to update task: not owner''\<rparr>,
      [SimulateContract (updateTask_fn 1 (lit ''b2'')) (lit ''0xf00'')])
   \<and> completeTask example_ledger example_state 2 =
     (example_state\<lparr>error := lit ''Failed to complete task: already completed''\<rparr>,
      [SimulateContract (completeTask_fn 2) (lit ''0xf00'')])"
proof -
  have s: "example_state\<lparr>loading := False, error := e\<rparr> = example_state\<lparr>error := e\<rparr>" for e
    by (simp add: example_state_def)
  have a: "simulateContract example_ledger_reverting fn caller = Inl (lit ''not owner'')"
    for fn caller
    by (simp add: example_ledger_reverting_def)
  have b: "simulateContract example_ledger (completeTask_fn 2) caller
             = Inl (lit ''already completed'')" for caller
    by (simp add: example_ledger_def)
  from simulate_failure_never_submits [of example_state example_ledger_reverting "lit ''not owner''" 1 "lit ''b2 ''" 2]
    simulate_failure_never_submits [of example_state example_ledger "lit ''already completed''" 1 "lit ''b2 ''" 2]
  show ?thesis
    by (simp add: example_state_fields trim_buy_milk trim_b2 a b s lit_append lit_Nil_iff)
qed

text \<open>
  Claim C6, as amended. For each of the three write intents that got past the entry
  guard, when the simulation, the submission or the wait for the receipt throws, the
  tasks and the events of the store are the ones from before the intent. The state
  differs from the earlier one only in the recorded error (and the cleared busy flag).
  The claim as stated, for a failure at any stage, fails at the confirmation stage: a
  transaction that is mined and reverted comes back as a receipt, not as a throw, the
  handlers drop the receipt, and the intent goes on to the reload, which replaces the
  tasks and the events and records no error.
\<close>

theorem failed_write_keeps_snapshot:
  "(trim (newTaskDescription s) \<noteq> [] \<and> walletClient s \<noteq> None
      \<and> throws_with L (createTask_fn (trim (newTaskDescription s))) (account s) message
    \<longrightarrow> tasks (fst (createTask L s)) = tasks s \<and> events (fst (createTask L s)) = events s
        \<and> fst (createTask L s)
            = s\<lparr>loading := False, error := lit ''Failed to create task: '' @ message\<rparr>)
 \<and> (editingTask s = Some (i, d) \<and> trim d \<noteq> [] \<and> walletClient s \<noteq> None
      \<and> throws_with L (updateTask_fn i (trim d)) (account s) message
    \<longrightarrow> tasks (fst (updateTask L s)) = tasks s \<and> events (fst (updateTask L s)) = events s
        \<and> fst (updateTask L s)
            = s\<lparr>loading := False, error := lit ''Failed to update task: '' @ message\<rparr>)
 \<and> (walletClient s \<noteq> None \<and> throws_with L (completeTask_fn j) (account s) message
    \<longrightarrow> tasks (fst (completeTask L s j)) = tasks s \<and> events (fst (completeTask L s j)) = events s
        \<and> fst (completeTask L s j)
            = s\<lparr>loading := False, error := lit ''Failed to complete task: '' @ message\<rparr>)"
proof (intro conjI impI)
  assume "trim (newTaskDescription s) \<noteq> [] \<and> walletClient s \<noteq> None
      \<and> throws_with L (createTask_fn (trim (newTaskDescription s))) (account s) message"
  then have "fst (createTask L s)
            = s\<lparr>loading := False, error := lit ''Failed to create task: '' @ message\<rparr>"
    by (auto simp: createTask_def Let_def)
  then show "tasks (fst (createTask L s)) = tasks s" "events (fst (createTask L s)) = events s"
    "fst (createTask L s)
            = s\<lparr>loading := False, error := lit ''Failed to create task: '' @ message\<rparr>"
    by simp_all
next
  assume "editingTask s = Some (i, d) \<and> trim d \<noteq> [] \<and> walletClient s \<noteq> None
      \<and> throws_with L (updateTask_fn i (trim d)) (account s) message"
  then have "fst (updateTask L s)
            = s\<lparr>loading := False, error := lit ''Failed to update task: '' @ message\<rparr>"
    by (auto simp: updateTask_def Let_def)
  then show "tasks (fst (updateTask L s)) = tasks s" "events (fst (updateTask L s)) = events s"
    "fst (updateTask L s)
            = s\<lparr>loading := False, error := lit ''Failed to update task: '' @ message\<rparr>"
    by simp_all
next
  assume "walletClient s \<noteq> None \<and> throws_with L (completeTask_fn j) (account s) message"
  then have "fst (completeTask L s j)
            = s\<lparr>loading := False, error := lit ''Failed to complete task: '' @ message\<rparr>"
    by (auto simp: completeTask_def Let_def)
  then show "tasks (fst (completeTask L s j)) = tasks s"
    "events (fst (completeTask L s j)) = events s"
    "fst (completeTask L s j)
            = s\<lparr>loading := False, error := lit ''Failed to complete task: '' @ message\<rparr>"
    by simp_all
qed

theorem failed_write_keeps_snapshot_witness:
  "fst (createTask example_ledger_reverting example_state)
     = example_state\<lparr>error := lit ''Failed to create task: not owner''\<rparr>
   \<and> fst (updateTask example_ledger_rejecting example_state)
     = example_state\<lparr>error := lit ''Failed to update task: User rejected''\<rparr>
   \<and> fst (completeTask example_ledger_timeout example_state 1)
     = example_state\<lparr>error := lit ''Failed to complete task: Timed out''\<rparr>
   \<and> tasks (fst (completeTask example_ledger_timeout example_state 1)) = tasks example_state
   \<and> events (fst (completeTask example_ledger_timeout example_state 1)) = events example_state"
proof -
  have s: "example_state\<lparr>loading := False, error := e\<rparr> = example_state\<lparr>error := e\<rparr>" for e
    by (simp add: example_state_def)
  have a: "simulateContract example_ledger_reverting fn caller = Inl (lit ''not owner'')"
    for fn caller
    by (simp add: example_ledger_reverting_def)
  have b: "simulateContract example_ledger_rejecting (updateTask_fn 1 (lit ''b2'')) caller = Inr 7"
    "writeContract example_ledger_rejecting 7 = Inl (lit ''User rejected'')" for caller
    by (simp_all add: example_ledger_rejecting_def example_ledger_def)
  have c: "simulateContract example_ledger_timeout (completeTask_fn 1) caller = Inr 7"
    "writeContract example_ledger_timeout 7 = Inr (lit ''0xabc'')"
    "waitForTransactionReceipt example_ledger_timeout (lit ''0xabc'') = Inl (lit ''Timed out'')"
    for caller
    by (simp_all add: example_ledger_timeout_def example_ledger_def)
  from failed_write_keeps_snapshot [of example_state example_ledger_reverting "lit ''not owner''" 1 "lit ''b2 ''" 1]
    failed_write_keeps_snapshot [of example_state example_ledger_rejecting "lit ''User rejected''" 1 "lit ''b2 ''" 1]
    failed_write_keeps_snapshot [of example_state example_ledger_timeout "lit ''Timed out''" 1 "lit ''b2 ''" 1]
  show ?thesis
    by (simp add: example_state_fields trim_buy_milk trim_b2 a b c s lit_append lit_Nil_iff)
qed

theorem reverted_receipt_reloads_store:
  "walletClient example_state = Some ()
   \<and> simulateContract example_ledger_mined_reverted (completeTask_fn 1) (account example_state)
       = Inr 7
   \<and> writeContract example_ledger_mined_reverted 7 = Inr (lit ''0xabc'')
   \<and> waitForTransactionReceipt example_ledger_mined_reverted (lit ''0xabc'') = Inr reverted
   \<and> snd (completeTask example_ledger_mined_reverted example_state 1)
       = [SimulateContract (completeTask_fn 1) (lit ''0xf00''), WriteContract 7,
          WaitForTransactionReceipt (lit ''0xabc''), GetLogs, ReadContract 1, ReadContract 2]
   \<and> tasks (fst (completeTask example_ledger_mined_reverted example_state 1))
       = [\<lparr> id_Task = 1, description_Task = lit ''b'', completed = False \<rparr>,
          \<lparr> id_Task = 2, description_Task = lit ''c'', completed = True \<rparr>]
   \<and> tasks (fst (completeTask example_ledger_mined_reverted example_state 1))
       \<noteq> tasks example_state
   \<and> events (fst (completeTask example_ledger_mined_reverted example_state 1))
       \<noteq> events example_state
   \<and> error (fst (completeTask example_ledger_mined_reverted example_state 1)) = []"
proof -
  have h1: "getLogs example_ledger_mined_reverted = Inr example_logs"
    by (simp add: example_ledger_mined_reverted_def example_ledger_def)
  have ids: "collectTaskIds example_logs = [1, 2]"
    by (simp add: collectTaskIds_def set_add_def example_logs_def)
  have a: "simulateContract example_ledger_mined_reverted (completeTask_fn 1) caller = Inr 7"
    "writeContract example_ledger_mined_reverted 7 = Inr (lit ''0xabc'')"
    "waitForTransactionReceipt example_ledger_mined_reverted (lit ''0xabc'') = Inr reverted"
    for caller
    by (simp_all add: example_ledger_mined_reverted_def example_ledger_def)
  have r: "fetchTask example_ledger_mined_reverted 1
             = Some \<lparr> id_Task = 1, description_Task = lit ''b'', completed = False \<rparr>"
    "fetchTask example_ledger_mined_reverted 2
             = Some \<lparr> id_Task = 2, description_Task = lit ''c'', completed = True \<rparr>"
    by (simp_all add: fetchTask_def example_ledger_mined_reverted_def example_ledger_def)
  have n: "length (sortEvents (map processLog example_logs)) = 4"
    by (simp add: sortEvents_sort_key example_logs_def)
  have c: "completeTask example_ledger_mined_reverted example_state 1
         = (example_state\<lparr>events := sortEvents (map processLog example_logs),
               tasks := [\<lparr> id_Task = 1, description_Task = lit ''b'', completed = False \<rparr>,
                         \<lparr> id_Task = 2, description_Task = lit ''c'', completed = True \<rparr>]\<rparr>,
            [SimulateContract (completeTask_fn 1) (lit ''0xf00''), WriteContract 7,
             WaitForTransactionReceipt (lit ''0xabc''), GetLogs, ReadContract 1,
             ReadContract 2])"
    by (simp add: completeTask_def Let_def example_state_fields a load_ok [OF h1] ids r
          validTasks_def sortTasks_def js_sort_def)
  have e: "events example_state \<noteq> sortEvents (map processLog example_logs)"
  proof
    assume "events example_state = sortEvents (map processLog example_logs)"
    then have "length (events example_state) = 4"
      using n by simp
    then show False
      by (simp add: example_state_def)
  qed
  show ?thesis
    unfolding c using a e by (simp add: example_state_fields, simp add: example_state_def)
qed

text \<open>
  Claim C7. A create intent whose description is empty or made of whitespace only, an
  update intent whose edited description is empty or made of whitespace only, and any
  of the three intents issued while no wallet client is connected, return at the guard:
  the state is untouched and no call is made, neither a simulation nor a submission.
\<close>

theorem entry_guard_makes_no_call:
  "((\<forall>c \<in> set (newTaskDescription s). is_ws c) \<or> walletClient s = None
    \<longrightarrow> createTask L s = (s, []))
 \<and> ((\<exists>i d. editingTask s = Some (i, d) \<and> (\<forall>c \<in> set d. is_ws c)) \<or> walletClient s = None
    \<longrightarrow> updateTask L s = (s, []))
 \<and> (walletClient s = None \<longrightarrow> completeTask L s j = (s, []))"
  by (auto simp: createTask_def updateTask_def completeTask_def trim_empty_iff
           split: option.splits)

theorem entry_guard_makes_no_call_witness:
  "createTask example_ledger (example_state\<lparr>newTaskDescription := [0x20, 0x09, 0x3000]\<rparr>)
     = (example_state\<lparr>newTaskDescription := [0x20, 0x09, 0x3000]\<rparr>, [])
   \<and> createTask example_ledger (example_state\<lparr>walletClient := None\<rparr>)
     = (example_state\<lparr>walletClient := None\<rparr>, [])
   \<and> updateTask example_ledger (example_state\<lparr>editingTask := Some (1, lit ''  '')\<rparr>)
     = (example_state\<lparr>editingTask := Some (1, lit ''  '')\<rparr>, [])
   \<and> updateTask example_ledger (example_state\<lparr>walletClient := None\<rparr>)
     = (example_state\<lparr>walletClient := None\<rparr>, [])
   \<and> completeTask example_ledger (example_state\<lparr>walletClient := None\<rparr>) 1
     = (example_state\<lparr>walletClient := None\<rparr>, [])"
proof -
  have w: "\<forall>c \<in> set [0x20, 0x09, 0x3000]. is_ws c" "\<forall>c \<in> set (lit ''  ''). is_ws c"
    by (simp_all add: is_ws_def lit_def)
  from entry_guard_makes_no_call [of "example_state\<lparr>newTaskDescription := [0x20, 0x09, 0x3000]\<rparr>" example_ledger 1]
    entry_guard_makes_no_call [of "example_state\<lparr>editingTask := Some (1, lit ''  '')\<rparr>" example_ledger 1]
    entry_guard_makes_no_call [of "example_state\<lparr>walletClient := None\<rparr>" example_ledger 1]
  show ?thesis
    using w by simp
qed

text \<open>
  Claim C8. Running the read path a second time against the same ledger answers, from
  the state the first run left, gives the same tasks and the same events as the first
  run.
\<close>

theorem read_path_idempotent:
  "tasks (fst (loadTasksAndEvents L (fst (loadTasksAndEvents L s))))
     = tasks (fst (loadTasksAndEvents L s))
   \<and> events (fst (loadTasksAndEvents L (fst (loadTasksAndEvents L s))))
     = events (fst (loadTasksAndEvents L s))"
  by (cases "getLogs L") (simp_all add: load_ok load_failed)

text \<open>
  Claim C9. The events panel renders the first 20 events of the stored feed and nothing
  else: the rendered events are \<open>take 20\<close> of the store, so there are at most 20 of
  them however many the store holds.
\<close>

theorem events_panel_first_twenty:
  "renderedEvents (eventsPanel evs) = take 20 evs
   \<and> length (renderedEvents (eventsPanel evs)) = min 20 (length evs)
   \<and> length (renderedEvents (eventsPanel evs)) \<le> 20"
  by (simp add: renderedEvents_panel)

text \<open>
  Claim C10. Every simulation that a create or update intent issues carries the trimmed
  input as its description argument: a non-empty string whose first and last code units
  are not whitespace. Every submission carries the request that the simulation of that
  trimmed argument returned. An intent that passes the guard starts with that
  simulation.
\<close>

theorem submitted_description_trimmed:
  "(\<forall>fn caller. SimulateContract fn caller \<in> set (snd (createTask L s)) \<longrightarrow>
       fn = createTask_fn (trim (newTaskDescription s))
       \<and> trim (newTaskDescription s) \<noteq> []
       \<and> \<not> is_ws (hd (trim (newTaskDescription s)))
       \<and> \<not> is_ws (last (trim (newTaskDescription s))))
 \<and> (\<forall>request. WriteContract request \<in> set (snd (createTask L s)) \<longrightarrow>
       simulateContract L (createTask_fn (trim (newTaskDescription s))) (account s)
         = Inr request)
 \<and> (trim (newTaskDescription s) \<noteq> [] \<and> walletClient s \<noteq> None \<longrightarrow>
       (\<exists>rest. snd (createTask L s)
          = SimulateContract (createTask_fn (trim (newTaskDescription s))) (account s) # rest))
 \<and> (\<forall>fn caller i d. editingTask s = Some (i, d)
       \<and> SimulateContract fn caller \<in> set (snd (updateTask L s)) \<longrightarrow>
       fn = updateTask_fn i (trim d) \<and> trim d \<noteq> []
       \<and> \<not> is_ws (hd (trim d)) \<and> \<not> is_ws (last (trim d)))
 \<and> (\<forall>request i d. editingTask s = Some (i, d)
       \<and> WriteContract request \<in> set (snd (updateTask L s)) \<longrightarrow>
       simulateContract L (updateTask_fn i (trim d)) (account s) = Inr request)
 \<and> (\<forall>i d. editingTask s = Some (i, d) \<and> trim d \<noteq> [] \<and> walletClient s \<noteq> None \<longrightarrow>
       (\<exists>rest. snd (updateTask L s)
          = SimulateContract (updateTask_fn i (trim d)) (account s) # rest))"
proof (intro conjI allI impI)
  fix fn caller
  assume a: "SimulateContract fn caller \<in> set (snd (createTask L s))"
  from createTask_simulate_arg [OF a]
  show "fn = createTask_fn (trim (newTaskDescription s))"
    and ne: "trim (newTaskDescription s) \<noteq> []"
    by simp_all
  from trim_ends [OF ne]
  show "\<not> is_ws (hd (trim (newTaskDescription s)))"
    and "\<not> is_ws (last (trim (newTaskDescription s)))"
    by simp_all
next
  fix request
  assume "WriteContract request \<in> set (snd (createTask L s))"
  then show "simulateContract L (createTask_fn (trim (newTaskDescription s))) (account s)
         = Inr request"
    by (rule createTask_write_arg)
next
  assume "trim (newTaskDescription s) \<noteq> [] \<and> walletClient s \<noteq> None"
  then show "\<exists>rest. snd (createTask L s)
          = SimulateContract (createTask_fn (trim (newTaskDescription s))) (account s) # rest"
    using createTask_first_call [of s L] by blast
next
  fix fn caller i d
  assume a: "editingTask s = Some (i, d)
       \<and> SimulateContract fn caller \<in> set (snd (updateTask L s))"
  then have b: "fn = updateTask_fn i (trim d) \<and> trim d \<noteq> []"
    using updateTask_simulate_arg [of s i d fn caller L] by blast
  then show "fn = updateTask_fn i (trim d)" and ne: "trim d \<noteq> []"
    by simp_all
  from trim_ends [OF ne]
  show "\<not> is_ws (hd (trim d))" and "\<not> is_ws (last (trim d))"
    by simp_all
next
  fix request i d
  assume "editingTask s = Some (i, d)
       \<and> WriteContract request \<in> set (snd (updateTask L s))"
  then show "simulateContract L (updateTask_fn i (trim d)) (account s) = Inr request"
    using updateTask_write_arg [of s i d request L] by blast
next
  fix i d
  assume "editingTask s = Some (i, d) \<and> trim d \<noteq> [] \<and> walletClient s \<noteq> None"
  then show "\<exists>rest. snd (updateTask L s)
          = SimulateContract (updateTask_fn i (trim d)) (account s) # rest"
    using updateTask_first_call [of s i d L] by blast
qed

theorem submitted_description_trimmed_witness:
  "snd (createTask example_ledger example_state)
     = [SimulateContract (createTask_fn (lit ''buy milk'')) (lit ''0xf00''), WriteContract 7,
        WaitForTransactionReceipt (lit ''0xabc''), GetLogs, ReadContract 1, ReadContract 2]
   \<and> trim (lit '' buy milk '') = lit ''buy milk''
   \<and> \<not> is_ws (hd (lit ''buy milk'')) \<and> \<not> is_ws (last (lit ''buy milk''))
   \<and> simulateContract example_ledger (createTask_fn (lit ''buy milk'')) (lit ''0xf00'') = Inr 7
   \<and> SimulateContract (updateTask_fn 1 (lit ''b2'')) (lit ''0xf00'')
       \<in> set (snd (updateTask example_ledger example_state))
   \<and> \<not> is_ws (hd (lit ''b2'')) \<and> \<not> is_ws (last (lit ''b2''))"
proof -
  have h1: "getLogs example_ledger = Inr example_logs"
    by (simp add: example_ledger_def)
  have ids: "collectTaskIds example_logs = [1, 2]"
    by (simp add: collectTaskIds_def set_add_def example_logs_def)
  have l: "snd (loadTasksAndEvents example_ledger s) = [GetLogs, ReadContract 1, ReadContract 2]"
    for s
    by (simp add: load_ok [OF h1] ids)
  have a: "simulateContract example_ledger (createTask_fn (lit ''buy milk'')) caller = Inr 7"
    "simulateContract example_ledger (updateTask_fn 1 (lit ''b2'')) caller = Inr 7"
    "writeContract example_ledger 7 = Inr (lit ''0xabc'')"
    "waitForTransactionReceipt example_ledger (lit ''0xabc'') = Inr success" for caller
    by (simp_all add: example_ledger_def)
  have tr: "snd (createTask example_ledger example_state)
     = [SimulateContract (createTask_fn (lit ''buy milk'')) (lit ''0xf00''), WriteContract 7,
        WaitForTransactionReceipt (lit ''0xabc''), GetLogs, ReadContract 1, ReadContract 2]"
    by (simp add: createTask_def Let_def example_state_fields trim_buy_milk a l case_prod_unfold
          lit_Nil_iff)
  have tu: "SimulateContract (updateTask_fn 1 (lit ''b2'')) (lit ''0xf00'')
       \<in> set (snd (updateTask example_ledger example_state))"
    by (simp add: updateTask_def Let_def example_state_fields trim_b2 a l case_prod_unfold
          lit_Nil_iff)
  from submitted_description_trimmed [of example_ledger example_state] tr tu
  show ?thesis
    by (simp add: example_state_fields trim_buy_milk trim_b2 a example_ends)
qed

end
